theory Spec2Isabelle
  imports Main "HOL-Library.Word"
begin

section \<open>The SOCKS5 server of server.go\<close>

text \<open>
  This theory embeds \<^verbatim>\<open>server.go\<close>: the \<^verbatim>\<open>Server\<close> struct, \<^verbatim>\<open>NewServer\<close>,
  \<^verbatim>\<open>Serve\<close>, \<^verbatim>\<open>ServeConn\<close>, \<^verbatim>\<open>authenticate\<close> and \<^verbatim>\<open>submit\<close>.
  Go's pointer receiver \<^verbatim>\<open>s *Server\<close> and the \<^verbatim>\<open>net.Conn\<close> are mutable objects, so
  every function takes the server and the connection and returns them again.
  Errors are values of the datatype \<open>error\<close>; a Go result \<^verbatim>\<open>(v, err)\<close> is a sum
  \<open>error + 'a\<close> and a lone \<^verbatim>\<open>error\<close> result is an \<open>error option\<close> (\<^verbatim>\<open>nil\<close> is \<open>None\<close>).
\<close>

subsection \<open>Bytes, protocol constants, errors\<close>

type_synonym byte = "8 word"

text \<open>
  Modelled from the spec: the constants of package \<^verbatim>\<open>statute\<close>, which is imported and not
  among the sources. Their values are the ones the specification shows on the wire: version \<^verbatim>\<open>05\<close>, no-auth \<^verbatim>\<open>00\<close>, username/password
  \<^verbatim>\<open>02\<close>, no acceptable methods \<^verbatim>\<open>FF\<close>; address-type-not-supported is the ninth status
  of the reply taxonomy, counted from zero.
\<close>

definition VersionSocks5 :: byte where
  "VersionSocks5 = 0x05"

definition MethodNoAuth :: byte where
  "MethodNoAuth = 0x00"

definition MethodUserPassAuth :: byte where
  "MethodUserPassAuth = 0x02"

definition MethodNoAcceptable :: byte where
  "MethodNoAcceptable = 0xFF"

definition RepAddrTypeNotSupported :: byte where
  "RepAddrTypeNotSupported = 0x08"

text \<open>
  The sentinel errors of \<^verbatim>\<open>statute\<close> that \<^verbatim>\<open>server.go\<close> names, any other error
  (\<open>ErrOther\<close>, with its message), and \<^verbatim>\<open>fmt.Errorf(format, err)\<close> with its format string.
  Go compares \<^verbatim>\<open>err == statute.ErrUnrecognizedAddrType\<close> by identity; here that is equality of
  constructors, so a wrapped sentinel differs from the sentinel.
\<close>

datatype error =
    ErrNotSupportVersion
  | ErrNoSupportedAuth
  | ErrUnrecognizedAddrType
  | ErrOther string
  | Errorf string error

subsection \<open>Connections\<close>

text \<open>
  A \<^verbatim>\<open>net.Conn\<close>: the bytes the peer has sent and that are still unread (\<open>input\<close>; the
  \<^verbatim>\<open>bufio.Reader\<close> over the connection reads from it), the log of the \<^verbatim>\<open>Write\<close> calls made
  on it, each with its payload and its outcome (\<open>wlog\<close>), the outcomes the transport will give
  to the coming \<^verbatim>\<open>Write\<close> calls (\<open>wres\<close>; once used up, writes succeed), whether
  \<^verbatim>\<open>Close\<close> was called, and the two addresses.
\<close>

record conn =
  input :: "byte list"
  wlog :: "(byte list \<times> error option) list"
  wres :: "error option list"
  closed :: bool
  connLocalAddr :: string
  connRemoteAddr :: string

definition Write :: "conn \<Rightarrow> byte list \<Rightarrow> error option \<times> conn" where
  "Write c bs =
     (case wres c of
        [] \<Rightarrow> (None, c\<lparr>wlog := wlog c @ [(bs, None)]\<rparr>)
      | r # rs \<Rightarrow> (r, c\<lparr>wlog := wlog c @ [(bs, r)], wres := rs\<rparr>))"

definition Close :: "conn \<Rightarrow> conn" where
  "Close c = c\<lparr>closed := True\<rparr>"

subsection \<open>Authenticators and the server configuration\<close>

text \<open>
  \<^verbatim>\<open>AuthContext\<close>, \<^verbatim>\<open>Authenticator\<close> and \<^verbatim>\<open>CredentialStore\<close> are declared outside
  \<^verbatim>\<open>server.go\<close>. \<^verbatim>\<open>server.go\<close> uses an authenticator through \<^verbatim>\<open>GetCode()\<close> and
  \<^verbatim>\<open>Authenticate(reader, writer, userAddr)\<close>, where reader and writer are both the
  connection; a credential store through \<^verbatim>\<open>Valid(user, password, userAddr)\<close>.
\<close>

record AuthContext =
  Method :: byte
  Payload :: "(string \<times> string) list"

record Authenticator =
  GetCode :: byte
  Authenticate :: "conn \<Rightarrow> string \<Rightarrow> (error + AuthContext) \<times> conn"

type_synonym CredentialStore = "string \<Rightarrow> string \<Rightarrow> string \<Rightarrow> bool"

text \<open>
  The remaining collaborators are interfaces and functions whose implementations
  \<^verbatim>\<open>server.go\<close> only stores. Each is a handle: the default that \<^verbatim>\<open>NewServer\<close> installs,
  or a caller's own, told apart by a number.
\<close>

datatype NameResolver = DNSResolver | CustomResolver nat

datatype RuleSet = PermitAll | CustomRuleSet nat

datatype AddressRewriter = CustomRewriter nat

datatype Logger = StdLogger string | CustomLogger nat

datatype Dialer = NetDial | CustomDial nat

datatype UserHandle = CustomHandle nat

datatype pool = newPool nat

text \<open>
  A unit of work \<^verbatim>\<open>f func()\<close>. \<^verbatim>\<open>Serve\<close> submits the closure that serves one accepted
  connection; \<open>OtherTask\<close> stands for any other closure.
\<close>

datatype task = ServeConnTask conn | OtherTask nat

text \<open>
  \<^verbatim>\<open>GPool\<close> is the interface \<^verbatim>\<open>Submit(f func()) error\<close>. An implementation has a state of
  its own, here the tasks it holds, and \<^verbatim>\<open>Submit\<close> answers \<^verbatim>\<open>nil\<close> or an error.
\<close>

record GPool =
  Submit :: "task \<Rightarrow> task list \<Rightarrow> error option \<times> task list"

record Server =
  authMethods :: "byte \<rightharpoonup> Authenticator"
  authCustomMethods :: "Authenticator list"
  credentials :: "CredentialStore option"
  resolver :: NameResolver
  rules :: RuleSet
  rewriter :: "AddressRewriter option"
  bindIP :: "byte list"
  logger :: Logger
  dial :: Dialer
  bufferPool :: pool
  gPool :: "GPool option"
  userConnectHandle :: "UserHandle option"
  userBindHandle :: "UserHandle option"
  userAssociateHandle :: "UserHandle option"

text \<open>\<^verbatim>\<open>type Option func(s *Server)\<close>: an option updates the server under construction.\<close>

type_synonym Option = "Server \<Rightarrow> Server"

subsection \<open>Messages and the functions that server.go calls\<close>

text \<open>
  \<^verbatim>\<open>statute.MethodRequest\<close>, \<^verbatim>\<open>statute.Request\<close> and \<^verbatim>\<open>Request\<close>, with the fields
  \<^verbatim>\<open>server.go\<close> reads or assigns; the destination address of a request is kept as the raw
  address-type byte, address bytes and port.
\<close>

record MethodRequest =
  Ver :: byte
  NMethods :: byte
  Methods :: "byte list"

record statute_Request =
  Version :: byte
  Command :: byte
  Reserved :: byte
  DstAddrType :: byte
  DstAddr :: "byte list"
  DstPort :: nat

record Request =
  Head :: statute_Request
  ReqAuthContext :: "AuthContext option"
  LocalAddr :: string
  RemoteAddr :: string

text \<open>
  The functions \<^verbatim>\<open>server.go\<close> calls and that live in other files are parameters of the model:
  \<^verbatim>\<open>statute.ParseMethodRequest\<close> and \<^verbatim>\<open>NewRequest\<close> take an \<^verbatim>\<open>io.Reader\<close>, so they see
  and consume the unread input only; \<^verbatim>\<open>SendReply\<close> takes the connection as writer;
  \<^verbatim>\<open>handleRequest\<close> is a method of the server and takes the connection and the request;
  \<open>noAuth\<close> and \<open>userPassAuth\<close> are the \<^verbatim>\<open>Authenticate\<close> methods of
  \<^verbatim>\<open>NoAuthAuthenticator\<close> and \<^verbatim>\<open>UserPassAuthenticator\<close>.
  A call that blocks for ever is outside the model: each of them returns.
\<close>

record deps =
  ParseMethodRequest :: "byte list \<Rightarrow> (error + MethodRequest) \<times> byte list"
  NewRequest :: "byte list \<Rightarrow> (error + Request) \<times> byte list"
  SendReply :: "conn \<Rightarrow> statute_Request \<Rightarrow> byte \<Rightarrow> error option \<times> conn"
  handleRequest :: "Server \<Rightarrow> conn \<Rightarrow> Request \<Rightarrow> error option \<times> Server \<times> conn"
  noAuth :: "conn \<Rightarrow> string \<Rightarrow> (error + AuthContext) \<times> conn"
  userPassAuth :: "CredentialStore \<Rightarrow> conn \<Rightarrow> string \<Rightarrow> (error + AuthContext) \<times> conn"

text \<open>
  Modelled from the spec: \<^verbatim>\<open>NoAuthAuthenticator\<close> and \<^verbatim>\<open>UserPassAuthenticator\<close> (declared in
  another file) are the authenticators with the method codes \<^verbatim>\<open>00\<close> and \<^verbatim>\<open>02\<close>; their
  negotiations are the parameters above.
\<close>

definition NoAuthAuthenticator :: "deps \<Rightarrow> Authenticator" where
  "NoAuthAuthenticator d = \<lparr>GetCode = MethodNoAuth, Authenticate = noAuth d\<rparr>"

definition UserPassAuthenticator :: "deps \<Rightarrow> CredentialStore \<Rightarrow> Authenticator" where
  "UserPassAuthenticator d cs = \<lparr>GetCode = MethodUserPassAuth, Authenticate = userPassAuth d cs\<rparr>"

text \<open>The zero value of \<^verbatim>\<open>statute.Request\<close> with the version set: \<^verbatim>\<open>statute.Request{Version: v}\<close>.\<close>

definition Request_Version :: "byte \<Rightarrow> statute_Request" where
  "Request_Version v =
     \<lparr>Version = v, Command = 0, Reserved = 0, DstAddrType = 0, DstAddr = [], DstPort = 0\<rparr>"

subsection \<open>NewServer\<close>

text \<open>
  \<^verbatim>\<open>NewServer\<close> in its four steps, in the order of the source: the struct literal, the loop
  that applies the options, the test that installs the username/password authenticator when
  the list of custom methods is empty and a credential store is set, and the loop that enters
  every custom method into the map under its code (a later entry replaces an earlier one with
  the same code).
\<close>

definition default_server :: "deps \<Rightarrow> Server" where
  "default_server d =
     \<lparr>authMethods = Map.empty,
      authCustomMethods = [NoAuthAuthenticator d],
      credentials = None,
      resolver = DNSResolver,
      rules = PermitAll,
      rewriter = None,
      bindIP = [],
      logger = StdLogger ''socks5: '',
      dial = NetDial,
      bufferPool = newPool (2 * 1024),
      gPool = None,
      userConnectHandle = None,
      userBindHandle = None,
      userAssociateHandle = None\<rparr>"

definition apply_opts :: "Option list \<Rightarrow> Server \<Rightarrow> Server" where
  "apply_opts opts server = fold (\<lambda>opt srv. opt srv) opts server"

definition ensure_auth :: "deps \<Rightarrow> Server \<Rightarrow> Server" where
  "ensure_auth d server =
     (case credentials server of
        Some cs \<Rightarrow>
          if length (authCustomMethods server) = 0
          then server\<lparr>authCustomMethods := [UserPassAuthenticator d cs]\<rparr>
          else server
      | None \<Rightarrow> server)"

definition register_auth :: "Server \<Rightarrow> Server" where
  "register_auth server =
     fold (\<lambda>v srv. srv\<lparr>authMethods := (authMethods srv)(GetCode v \<mapsto> v)\<rparr>)
       (authCustomMethods server) server"

definition NewServer :: "deps \<Rightarrow> Option list \<Rightarrow> Server" where
  "NewServer d opts = register_auth (ensure_auth d (apply_opts opts (default_server d)))"

text \<open>
  Modelled from the spec: the option that sets the credential store (\<^verbatim>\<open>option.go\<close> is not
  among the sources). It assigns the \<open>credentials\<close> field and nothing else.
\<close>

definition WithCredential :: "CredentialStore \<Rightarrow> Option" where
  "WithCredential cs = (\<lambda>s. s\<lparr>credentials := Some cs\<rparr>)"

subsection \<open>authenticate\<close>

fun authenticate ::
  "Server \<Rightarrow> conn \<Rightarrow> string \<Rightarrow> byte list \<Rightarrow> (error + AuthContext) \<times> Server \<times> conn" where
  "authenticate s c userAddr [] =
     (case Write c [VersionSocks5, MethodNoAcceptable] of
        (_, c') \<Rightarrow> (Inl ErrNoSupportedAuth, s, c'))"
| "authenticate s c userAddr (method # methods) =
     (case authMethods s method of
        Some cator \<Rightarrow>
          (case Authenticate cator c userAddr of (r, c') \<Rightarrow> (r, s, c'))
      | None \<Rightarrow> authenticate s c userAddr methods)"

subsection \<open>ServeConn\<close>

text \<open>
  The body of \<^verbatim>\<open>ServeConn\<close>, without the deferred \<^verbatim>\<open>conn.Close()\<close>. Every \<^verbatim>\<open>return\<close> of
  the source is one branch. The result is the returned error, the server, and the connection.
\<close>

definition ServeConn_body :: "deps \<Rightarrow> Server \<Rightarrow> conn \<Rightarrow> error option \<times> Server \<times> conn" where
  "ServeConn_body d s c =
     (case ParseMethodRequest d (input c) of
        (Inl err, i1) \<Rightarrow> (Some err, s, c\<lparr>input := i1\<rparr>)
      | (Inr mr, i1) \<Rightarrow>
          if Ver mr \<noteq> VersionSocks5 then (Some ErrNotSupportVersion, s, c\<lparr>input := i1\<rparr>)
          else
            (case authenticate s (c\<lparr>input := i1\<rparr>) (connRemoteAddr c) (Methods mr) of
               (Inl err, s1, c2) \<Rightarrow> (Some (Errorf ''failed to authenticate: %w'' err), s1, c2)
             | (Inr authContext, s1, c2) \<Rightarrow>
                 (case NewRequest d (input c2) of
                    (Inl err, i3) \<Rightarrow>
                      if err = ErrUnrecognizedAddrType then
                        (case SendReply d (c2\<lparr>input := i3\<rparr>) (Request_Version (Ver mr))
                                RepAddrTypeNotSupported of
                           (Some err', c4) \<Rightarrow> (Some (Errorf ''failed to send reply %w'' err'), s1, c4)
                         | (None, c4) \<Rightarrow>
                             (Some (Errorf ''failed to read destination address, %w'' err), s1, c4))
                      else
                        (Some (Errorf ''failed to read destination address, %w'' err), s1,
                         c2\<lparr>input := i3\<rparr>)
                  | (Inr request, i3) \<Rightarrow>
                      (case handleRequest d s1 (c2\<lparr>input := i3\<rparr>)
                              (request\<lparr>ReqAuthContext := Some authContext,
                                 LocalAddr := connLocalAddr c2,
                                 RemoteAddr := connRemoteAddr c2\<rparr>) of
                         (Some err, s2, c4) \<Rightarrow>
                           (Some (Errorf ''failed to handle request, %v'' err), s2, c4)
                       | (None, s2, c4) \<Rightarrow> (None, s2, c4)))))"

text \<open>\<^verbatim>\<open>defer conn.Close()\<close>: whatever the body returns, the connection is closed after it.\<close>

definition ServeConn :: "deps \<Rightarrow> Server \<Rightarrow> conn \<Rightarrow> error option \<times> Server \<times> conn" where
  "ServeConn d s c = (case ServeConn_body d s c of (r, s', c') \<Rightarrow> (r, s', Close c'))"

subsection \<open>submit and Serve\<close>

text \<open>
  What \<^verbatim>\<open>submit\<close> does with a task is recorded as events: a call \<^verbatim>\<open>s.gPool.Submit(f)\<close>
  with its answer, and a \<^verbatim>\<open>go f()\<close>. The scheduler state holds the pool's own state and the
  events so far. Go's \<^verbatim>\<open>||\<close> does not call \<^verbatim>\<open>Submit\<close> when the pool is \<^verbatim>\<open>nil\<close>.
\<close>

datatype sched_event = PoolSubmit task "error option" | Go task

record sched =
  pool_state :: "task list"
  trace :: "sched_event list"

definition submit :: "Server \<Rightarrow> task \<Rightarrow> sched \<Rightarrow> Server \<times> sched" where
  "submit s f w =
     (case gPool s of
        None \<Rightarrow> (s, w\<lparr>trace := trace w @ [Go f]\<rparr>)
      | Some p \<Rightarrow>
          (case Submit p f (pool_state w) of
             (None, ps) \<Rightarrow> (s, w\<lparr>pool_state := ps, trace := trace w @ [PoolSubmit f None]\<rparr>)
           | (Some e, ps) \<Rightarrow>
               (s, w\<lparr>pool_state := ps, trace := trace w @ [PoolSubmit f (Some e), Go f]\<rparr>)))"

text \<open>An event that puts the task \<open>f\<close> on its way: the pool took it, or a goroutine was started.\<close>

fun schedules :: "task \<Rightarrow> sched_event \<Rightarrow> bool" where
  "schedules f (PoolSubmit g r) = (g = f \<and> r = None)"
| "schedules f (Go g) = (g = f)"

text \<open>
  A \<^verbatim>\<open>net.Listener\<close> is the outcome of each call of \<^verbatim>\<open>Accept\<close>, numbered from 0.
  \<^verbatim>\<open>Serve\<close> is the loop \<^verbatim>\<open>for { ... }\<close>, here from the \<open>n\<close>-th \<^verbatim>\<open>Accept\<close> on; it returns
  only from inside, so a run that never returns has the value \<open>None\<close>.
\<close>

type_synonym Listener = "nat \<Rightarrow> error + conn"

partial_function (option) Serve_loop ::
  "Server \<Rightarrow> Listener \<Rightarrow> nat \<Rightarrow> sched \<Rightarrow> (error \<times> Server \<times> sched) option" where
  "Serve_loop s l n w =
     (case l n of
        Inl err \<Rightarrow> Some (err, s, w)
      | Inr c \<Rightarrow>
          Serve_loop (fst (submit s (ServeConnTask c) w)) l (Suc n)
            (snd (submit s (ServeConnTask c) w)))"

definition Serve :: "Server \<Rightarrow> Listener \<Rightarrow> sched \<Rightarrow> (error \<times> Server \<times> sched) option" where
  "Serve s l w = Serve_loop s l 0 w"

text \<open>
  The closure that \<^verbatim>\<open>Serve\<close> submits, run on its connection: \<^verbatim>\<open>ServeConn\<close>, and
  \<^verbatim>\<open>s.logger.Errorf("server conn %v", err)\<close> when it returns an error. The logger's output is
  the list of its \<^verbatim>\<open>Errorf\<close> calls. The closure returns nothing.
\<close>

type_synonym logged = "(string \<times> error) list"

definition run_ServeConnTask ::
  "deps \<Rightarrow> conn \<Rightarrow> Server \<times> logged \<Rightarrow> Server \<times> logged" where
  "run_ServeConnTask d c = (\<lambda>(s, lg).
     (case ServeConn d s c of
        (Some err, s', c') \<Rightarrow> (s', lg @ [(''server conn %v'', err)])
      | (None, s', c') \<Rightarrow> (s', lg)))"


subsection \<open>The request handler\<close>

text \<open>
  Modelled from the spec: \<^verbatim>\<open>handleRequest\<close>, the method of the server that \<^verbatim>\<open>ServeConn\<close>
  calls and whose file is not among the sources. It is the specification's policy pipeline
  and command executor. The address rewriter, when one is configured, rewrites the request,
  before the rules see it. The rule set decides; on a denial the connection-not-allowed reply
  is sent and the operation is not attempted. Otherwise the command (CONNECT \<^verbatim>\<open>01\<close>, BIND
  \<^verbatim>\<open>02\<close>, UDP-ASSOCIATE \<^verbatim>\<open>03\<close>) is carried out, by the caller-supplied handler when one
  is configured and by the built-in one otherwise; any other command is a failure.
  Connection-not-allowed is the third status of the reply taxonomy, counted from zero.

  The collaborators are parameters with the signatures of the specification's interfaces:
  \<^verbatim>\<open>rewrite(request)\<close>, \<^verbatim>\<open>allow(context, request)\<close> (the context is left out), a user handle
  \<^verbatim>\<open>func(ctx, writer, request) error\<close>, and the three built-in commands, which are given the
  configured resolver, dial function, bind address and buffer pool, the connection and the
  request. None of them is given the server.
\<close>

definition RepConnectionNotAllowed :: byte where
  "RepConnectionNotAllowed = 0x02"

definition CommandConnect :: byte where
  "CommandConnect = 0x01"

definition CommandBind :: byte where
  "CommandBind = 0x02"

definition CommandAssociate :: byte where
  "CommandAssociate = 0x03"

record executor =
  rewrite :: "AddressRewriter \<Rightarrow> Request \<Rightarrow> Request"
  allow :: "RuleSet \<Rightarrow> Request \<Rightarrow> bool"
  userHandle :: "UserHandle \<Rightarrow> conn \<Rightarrow> Request \<Rightarrow> error option \<times> conn"
  handleConnect :: "NameResolver \<Rightarrow> Dialer \<Rightarrow> pool \<Rightarrow> conn \<Rightarrow> Request \<Rightarrow> error option \<times> conn"
  handleBind :: "byte list \<Rightarrow> pool \<Rightarrow> conn \<Rightarrow> Request \<Rightarrow> error option \<times> conn"
  handleAssociate :: "byte list \<Rightarrow> pool \<Rightarrow> conn \<Rightarrow> Request \<Rightarrow> error option \<times> conn"

definition spec_handleRequest ::
  "executor \<Rightarrow> (conn \<Rightarrow> statute_Request \<Rightarrow> byte \<Rightarrow> error option \<times> conn) \<Rightarrow>
   Server \<Rightarrow> conn \<Rightarrow> Request \<Rightarrow> error option \<times> Server \<times> conn" where
  "spec_handleRequest ex reply s c req =
     (let req' = (case rewriter s of None \<Rightarrow> req | Some rw \<Rightarrow> rewrite ex rw req) in
      if \<not> allow ex (rules s) req' then
        (case reply c (Head req') RepConnectionNotAllowed of
           (Some err, c') \<Rightarrow> (Some (Errorf ''failed to send reply, %v'' err), s, c')
         | (None, c') \<Rightarrow> (Some (ErrOther ''connection not allowed by the rules''), s, c'))
      else if Command (Head req') = CommandConnect then
        (case (case userConnectHandle s of
                 Some h \<Rightarrow> userHandle ex h c req'
               | None \<Rightarrow> handleConnect ex (resolver s) (dial s) (bufferPool s) c req') of
           (r, c') \<Rightarrow> (r, s, c'))
      else if Command (Head req') = CommandBind then
        (case (case userBindHandle s of
                 Some h \<Rightarrow> userHandle ex h c req'
               | None \<Rightarrow> handleBind ex (bindIP s) (bufferPool s) c req') of
           (r, c') \<Rightarrow> (r, s, c'))
      else if Command (Head req') = CommandAssociate then
        (case (case userAssociateHandle s of
                 Some h \<Rightarrow> userHandle ex h c req'
               | None \<Rightarrow> handleAssociate ex (bindIP s) (bufferPool s) c req') of
           (r, c') \<Rightarrow> (r, s, c'))
      else (Some (ErrOther ''unsupported command''), s, c))"

text \<open>
  The collaborators of \<^verbatim>\<open>server.go\<close> with this request handler in the place of
  \<open>handleRequest\<close>; its replies go through the same \<^verbatim>\<open>SendReply\<close>.
\<close>

definition with_spec_handleRequest :: "executor \<Rightarrow> deps \<Rightarrow> deps" where
  "with_spec_handleRequest ex d = d\<lparr>handleRequest := spec_handleRequest ex (SendReply d)\<rparr>"

subsection \<open>Sample collaborators\<close>

text \<open>
  The theorems below hold for every choice of the parameters \<open>deps\<close>. To apply them to
  concrete connections, here is one choice: a handshake reader for the wire format
  \<^verbatim>\<open>version(1) | methodCount(1) | methods(methodCount)\<close>, a request reader that knows the
  IPv4 address type \<^verbatim>\<open>01\<close> only and reports any other as unrecognized, a reply writer
  that sends version, status, a reserved byte and a zero IPv4 address and port, a request
  handler that answers with a success reply, a no-auth negotiation that succeeds without
  input or output, and a username/password negotiation that asks the credential store about
  the empty user.
\<close>

definition sample_ParseMethodRequest :: "byte list \<Rightarrow> (error + MethodRequest) \<times> byte list" where
  "sample_ParseMethodRequest bs =
     (case bs of
        ver # n # rest \<Rightarrow>
          if unat n \<le> length rest
          then (Inr \<lparr>Ver = ver, NMethods = n, Methods = take (unat n) rest\<rparr>, drop (unat n) rest)
          else (Inl (ErrOther ''unexpected EOF''), [])
      | _ \<Rightarrow> (Inl (ErrOther ''EOF''), []))"

definition sample_NewRequest :: "byte list \<Rightarrow> (error + Request) \<times> byte list" where
  "sample_NewRequest bs =
     (case bs of
        ver # cmd # rsv # atyp # a1 # a2 # a3 # a4 # p1 # p2 # rest \<Rightarrow>
          if atyp = 0x01
          then (Inr \<lparr>Head = \<lparr>Version = ver, Command = cmd, Reserved = rsv, DstAddrType = atyp,
                              DstAddr = [a1, a2, a3, a4], DstPort = 256 * unat p1 + unat p2\<rparr>,
                      ReqAuthContext = None, LocalAddr = [], RemoteAddr = []\<rparr>, rest)
          else (Inl ErrUnrecognizedAddrType, a1 # a2 # a3 # a4 # p1 # p2 # rest)
      | _ \<Rightarrow> (Inl (ErrOther ''unexpected EOF''), []))"

definition sample_SendReply :: "conn \<Rightarrow> statute_Request \<Rightarrow> byte \<Rightarrow> error option \<times> conn" where
  "sample_SendReply c h rep = Write c [Version h, rep, 0, 0x01, 0, 0, 0, 0, 0, 0]"

definition sample_handleRequest ::
  "Server \<Rightarrow> conn \<Rightarrow> Request \<Rightarrow> error option \<times> Server \<times> conn" where
  "sample_handleRequest s c r =
     (case sample_SendReply c (Head r) 0x00 of (e, c') \<Rightarrow> (e, s, c'))"

definition sample_deps :: deps where
  "sample_deps =
     \<lparr>ParseMethodRequest = sample_ParseMethodRequest,
      NewRequest = sample_NewRequest,
      SendReply = sample_SendReply,
      handleRequest = sample_handleRequest,
      noAuth = (\<lambda>c userAddr. (Inr \<lparr>Method = MethodNoAuth, Payload = []\<rparr>, c)),
      userPassAuth = (\<lambda>cs c userAddr.
        if cs [] [] userAddr then (Inr \<lparr>Method = MethodUserPassAuth, Payload = []\<rparr>, c)
        else (Inl (ErrOther ''user authentication failed''), c))\<rparr>"

text \<open>A fresh connection on which the peer has sent \<open>bs\<close> and whose writes go through.\<close>

definition sample_conn :: "byte list \<Rightarrow> conn" where
  "sample_conn bs =
     \<lparr>input = bs, wlog = [], wres = [], closed = False,
      connLocalAddr = ''10.0.0.1:1080'', connRemoteAddr = ''10.0.0.2:40000''\<rparr>"

text \<open>A pool that holds at most one task, and a listener that fails at its third \<^verbatim>\<open>Accept\<close>.\<close>

definition sample_pool :: GPool where
  "sample_pool =
     \<lparr>Submit = (\<lambda>f q. if length q < 1 then (None, q @ [f]) else (Some (ErrOther ''pool full''), q))\<rparr>"

definition sample_listener :: Listener where
  "sample_listener n =
     (if n = 0 then Inr (sample_conn [0x05, 0x01, 0x02])
      else if n = 1 then Inr (sample_conn [0x04, 0x01, 0x00])
      else Inl (ErrOther ''accept: use of closed network connection''))"

text \<open>
  Sample collaborators of the request handler: no rewriting, rules that allow CONNECT only,
  and commands that answer with a success reply.
\<close>

definition sample_executor :: executor where
  "sample_executor =
     \<lparr>rewrite = (\<lambda>rw req. req),
      allow = (\<lambda>rs req. Command (Head req) = CommandConnect),
      userHandle = (\<lambda>h c req. sample_SendReply c (Head req) 0x00),
      handleConnect = (\<lambda>res dl bp c req. sample_SendReply c (Head req) 0x00),
      handleBind = (\<lambda>ip bp c req. sample_SendReply c (Head req) 0x00),
      handleAssociate = (\<lambda>ip bp c req. sample_SendReply c (Head req) 0x00)\<rparr>"

text \<open>A server built with both built-in authenticators as its custom methods.\<close>

definition sample_server :: Server where
  "sample_server =
     NewServer sample_deps
       [\<lambda>s. s\<lparr>authCustomMethods :=
           [NoAuthAuthenticator sample_deps, UserPassAuthenticator sample_deps (\<lambda>u p a. True)]\<rparr>]"

section \<open>Properties\<close>

subsection \<open>Auxiliary facts\<close>

lemma Write_wlog: "wlog (snd (Write c bs)) = wlog c @ [(bs, fst (Write c bs))]"
  by (simp add: Write_def split: list.splits)

lemma authenticate_no_match:
  "set methods \<inter> dom (authMethods s) = {} \<Longrightarrow>
   authenticate s c userAddr methods =
     (Inl ErrNoSupportedAuth, s, snd (Write c [VersionSocks5, MethodNoAcceptable]))"
  by (induction methods) (auto split: prod.splits)

lemma authenticate_first_match:
  "set pre \<inter> dom (authMethods s) = {} \<Longrightarrow> authMethods s m = Some cator \<Longrightarrow>
   authenticate s c userAddr (pre @ m # post) =
     (fst (Authenticate cator c userAddr), s, snd (Authenticate cator c userAddr))"
  by (induction pre) (auto split: prod.splits)


lemma register_fold_dom:
  "dom (authMethods (fold (\<lambda>v srv. srv\<lparr>authMethods := (authMethods srv)(GetCode v \<mapsto> v)\<rparr>) vs s))
     = dom (authMethods s) \<union> GetCode ` set vs"
  by (induction vs arbitrary: s) auto

lemma submit_server: "fst (submit s f w) = s"
  by (simp add: submit_def split: option.splits prod.splits)

lemma submit_trace:
  "trace (snd (submit s f w)) =
     trace w @
       (case gPool s of
          None \<Rightarrow> [Go f]
        | Some p \<Rightarrow>
            (case fst (Submit p f (pool_state w)) of
               None \<Rightarrow> [PoolSubmit f None]
             | Some e \<Rightarrow> [PoolSubmit f (Some e), Go f]))"
  by (simp add: submit_def split: option.splits prod.splits)

lemma submit_keeps_trace: "set (trace w) \<subseteq> set (trace (snd (submit s f w)))"
  by (simp add: submit_trace)

lemma submit_scheduled: "\<exists>ev\<in>set (trace (snd (submit s f w))). schedules f ev"
  by (simp add: submit_trace split: option.splits)

lemma Serve_loop_returns:
  "l (n + k) = Inl e \<Longrightarrow> (\<forall>j<k. \<exists>c. l (n + j) = Inr c) \<Longrightarrow>
   \<exists>w'. Serve_loop s l n w = Some (e, s, w') \<and> set (trace w) \<subseteq> set (trace w') \<and>
     (\<forall>j<k. \<forall>c. l (n + j) = Inr c \<longrightarrow> (\<exists>ev\<in>set (trace w'). schedules (ServeConnTask c) ev))"
proof (induction k arbitrary: n w)
  case 0
  then show ?case by (simp add: Serve_loop.simps)
next
  case (Suc k)
  from Suc.prems(2) obtain c where c: "l n = Inr c" by force
  let ?w1 = "snd (submit s (ServeConnTask c) w)"
  have step: "Serve_loop s l n w = Serve_loop s l (Suc n) ?w1"
    by (subst Serve_loop.simps) (simp add: c submit_server)
  have e: "l (Suc n + k) = Inl e" using Suc.prems(1) by simp
  have acc: "\<forall>j<k. \<exists>c. l (Suc n + j) = Inr c"
  proof (intro allI impI)
    fix j assume "j < k"
    then have "Suc j < Suc k" by simp
    with Suc.prems(2) have "\<exists>c. l (n + Suc j) = Inr c" by blast
    then show "\<exists>c. l (Suc n + j) = Inr c" by simp
  qed
  from Suc.IH [OF e acc, of ?w1] obtain w' where
    ret: "Serve_loop s l (Suc n) ?w1 = Some (e, s, w')" and
    sub: "set (trace ?w1) \<subseteq> set (trace w')" and
    sch: "\<forall>j<k. \<forall>c. l (Suc n + j) = Inr c \<longrightarrow> (\<exists>ev\<in>set (trace w'). schedules (ServeConnTask c) ev)"
    by blast
  have first: "\<exists>ev\<in>set (trace w'). schedules (ServeConnTask c) ev"
    using submit_scheduled [of s "ServeConnTask c" w] sub by blast
  have all: "\<forall>j<Suc k. \<forall>c'. l (n + j) = Inr c' \<longrightarrow> (\<exists>ev\<in>set (trace w'). schedules (ServeConnTask c') ev)"
  proof (intro allI impI)
    fix j c' assume j: "j < Suc k" and c': "l (n + j) = Inr c'"
    show "\<exists>ev\<in>set (trace w'). schedules (ServeConnTask c') ev"
    proof (cases j)
      case 0
      with c c' have "c' = c" by simp
      with first show ?thesis by simp
    next
      case (Suc j')
      with j c' have "j' < k" "l (Suc n + j') = Inr c'" by simp_all
      with sch show ?thesis by blast
    qed
  qed
  have "set (trace w) \<subseteq> set (trace w')"
    using submit_keeps_trace [of w s "ServeConnTask c"] sub by blast
  with step ret all show ?case by simp
qed

lemma Serve_loop_Some_accept_failed:
  assumes "Serve_loop s l n w = Some r"
  shows "\<exists>k. isl (l (n + k))"
proof (rule Serve_loop.raw_induct [where P = "\<lambda>s l n w r. \<exists>k. isl (l (n + k))", OF _ assms])
  fix f :: "Server \<Rightarrow> Listener \<Rightarrow> nat \<Rightarrow> sched \<Rightarrow> (error \<times> Server \<times> sched) option"
  fix s l n w r
  assume IH: "\<And>s l n w r. f s l n w = Some r \<Longrightarrow> \<exists>k. isl (l (n + k))"
  assume body: "(case l n of
        Inl err \<Rightarrow> Some (err, s, w)
      | Inr c \<Rightarrow>
          f (fst (submit s (ServeConnTask c) w)) l (Suc n)
            (snd (submit s (ServeConnTask c) w))) = Some r"
  show "\<exists>k. isl (l (n + k))"
  proof (cases "l n")
    case (Inl err)
    then have "isl (l (n + 0))" by simp
    then show ?thesis by blast
  next
    case (Inr c)
    with body have "f (fst (submit s (ServeConnTask c) w)) l (Suc n)
            (snd (submit s (ServeConnTask c) w)) = Some r" by simp
    from IH [OF this] obtain k where "isl (l (Suc n + k))" by blast
    then have "isl (l (n + Suc k))" by simp
    then show ?thesis by blast
  qed
qed

lemma first_failure:
  assumes "isl (l (m::nat))"
  shows "\<exists>n e. l n = Inl e \<and> (\<forall>k<n. \<exists>c. l k = Inr c)"
proof -
  let ?n = "LEAST n. isl (l n)"
  have a: "isl (l ?n)" using assms by (rule LeastI)
  have b: "\<forall>k<?n. \<not> isl (l k)" using not_less_Least by blast
  from a obtain e where "l ?n = Inl e" by (cases "l ?n") simp_all
  moreover have "\<forall>k<?n. \<exists>c. l k = Inr c"
  proof (intro allI impI)
    fix k assume "k < ?n"
    with b have "\<not> isl (l k)" by blast
    then show "\<exists>c. l k = Inr c" by (cases "l k") simp_all
  qed
  ultimately show ?thesis by blast
qed






lemma NewServer_no_options:
  "authMethods (NewServer d []) = [MethodNoAuth \<mapsto> NoAuthAuthenticator d]"
  by (simp add: NewServer_def apply_opts_def default_server_def ensure_auth_def
      register_auth_def NoAuthAuthenticator_def)

lemma NewServer_authMethods_dom:
  "dom (authMethods (NewServer d opts)) =
     dom (authMethods (apply_opts opts (default_server d))) \<union>
     GetCode ` set (authCustomMethods (ensure_auth d (apply_opts opts (default_server d))))"
  by (simp add: NewServer_def register_auth_def register_fold_dom ensure_auth_def split: option.splits)

lemma NewServer_credentials_empty_list:
  assumes "authCustomMethods (apply_opts opts (default_server d)) = []"
    and "credentials (apply_opts opts (default_server d)) = Some cs"
  shows "authMethods (NewServer d opts) MethodUserPassAuth = Some (UserPassAuthenticator d cs)"
  using assms
  by (simp add: NewServer_def ensure_auth_def register_auth_def UserPassAuthenticator_def)

lemma NewServer_default_list_kept:
  assumes "authCustomMethods (apply_opts opts (default_server d)) = [NoAuthAuthenticator d]"
    and "authMethods (apply_opts opts (default_server d)) = Map.empty"
  shows "authMethods (NewServer d opts) = [MethodNoAuth \<mapsto> NoAuthAuthenticator d]"
  using assms
  by (simp add: NewServer_def ensure_auth_def register_auth_def NoAuthAuthenticator_def
      split: option.splits)

text \<open>The sample server and the sample collaborators, evaluated.\<close>

lemma sample_server_authMethods:
  "authMethods sample_server =
     [MethodNoAuth \<mapsto> NoAuthAuthenticator sample_deps,
      MethodUserPassAuth \<mapsto> UserPassAuthenticator sample_deps (\<lambda>u p a. True)]"
  by (simp add: sample_server_def NewServer_def apply_opts_def default_server_def ensure_auth_def
      register_auth_def NoAuthAuthenticator_def UserPassAuthenticator_def)

lemma sample_handshake:
  "ParseMethodRequest sample_deps (input (sample_conn (ver # 0x01 # m # rest))) =
     (Inr \<lparr>Ver = ver, NMethods = 0x01, Methods = [m]\<rparr>, rest)"
  by (simp add: sample_deps_def sample_conn_def sample_ParseMethodRequest_def)

lemma sample_no_auth:
  "authenticate sample_server (sample_conn bs) userAddr [0x00] =
     (Inr \<lparr>Method = MethodNoAuth, Payload = []\<rparr>, sample_server, sample_conn bs)"
  by (simp add: sample_server_authMethods MethodNoAuth_def MethodUserPassAuth_def
      NoAuthAuthenticator_def sample_deps_def)

lemma submit_pool_state:
  "pool_state (snd (submit s f w)) =
     (case gPool s of None \<Rightarrow> pool_state w | Some p \<Rightarrow> snd (Submit p f (pool_state w)))"
  by (simp add: submit_def split: option.splits prod.splits)





lemma sample_server_fields:
  "rewriter sample_server = None" "rules sample_server = PermitAll"
  "userConnectHandle sample_server = None" "userBindHandle sample_server = None"
  "userAssociateHandle sample_server = None" "gPool sample_server = None"
  by (simp_all add: sample_server_def NewServer_def apply_opts_def default_server_def
      ensure_auth_def register_auth_def)

subsection \<open>Construction\<close>

text \<open>
  C1. The claim: after \<^verbatim>\<open>NewServer\<close> the authenticator map is never empty; with no custom
  authenticators and no credential store a no-auth authenticator is registered, and with a
  credential store and no custom authenticators a username/password authenticator is
  registered. The code does the first (\<open>NewServer_no_options\<close>) and misses the second:
  \<^verbatim>\<open>authCustomMethods\<close> starts as the one-element list holding the no-auth authenticator,
  so when an option sets the credential store and nothing else the test
  \<^verbatim>\<open>len(server.authCustomMethods) == 0\<close> is false, and the map holds the no-auth
  authenticator alone: no username/password authenticator is registered, although the
  credential store is set.
\<close>

theorem NewServer_WithCredential_registers_no_auth_only:
  "authMethods (NewServer d [WithCredential cs]) = [MethodNoAuth \<mapsto> NoAuthAuthenticator d] \<and>
   authMethods (NewServer d [WithCredential cs]) MethodUserPassAuth = None \<and>
   (\<exists>cs'. credentials (NewServer d [WithCredential cs]) = Some cs')"
  by (simp add: NewServer_def apply_opts_def default_server_def ensure_auth_def
      register_auth_def NoAuthAuthenticator_def WithCredential_def MethodNoAuth_def MethodUserPassAuth_def)

subsection \<open>Method negotiation\<close>

text \<open>
  C2. When no offered method code is in the authenticator map, \<^verbatim>\<open>authenticate\<close> makes one
  \<^verbatim>\<open>Write\<close> whose payload is the two bytes \<^verbatim>\<open>05 FF\<close> and fails with
  \<open>ErrNoSupportedAuth\<close>; \<^verbatim>\<open>ServeConn\<close> then returns that error wrapped, and its result is
  the same whatever \<^verbatim>\<open>NewRequest\<close> is: no request is parsed.
\<close>

theorem authenticate_no_acceptable_methods:
  assumes "set methods \<inter> dom (authMethods s) = {}"
  shows "authenticate s c userAddr methods =
           (Inl ErrNoSupportedAuth, s, snd (Write c [VersionSocks5, MethodNoAcceptable])) \<and>
         wlog (snd (snd (authenticate s c userAddr methods))) =
           wlog c @ [([0x05, 0xFF], fst (Write c [VersionSocks5, MethodNoAcceptable]))] \<and>
         (\<forall>d mr i1. ParseMethodRequest d (input c) = (Inr mr, i1) \<and> Ver mr = VersionSocks5 \<and>
              Methods mr = methods \<longrightarrow>
            ServeConn d s c =
              (Some (Errorf ''failed to authenticate: %w'' ErrNoSupportedAuth), s,
               Close (snd (Write (c\<lparr>input := i1\<rparr>) [VersionSocks5, MethodNoAcceptable]))) \<and>
            (\<forall>nr. ServeConn (d\<lparr>NewRequest := nr\<rparr>) s c = ServeConn d s c))"
proof -
  have a: "\<And>c userAddr. authenticate s c userAddr methods =
           (Inl ErrNoSupportedAuth, s, snd (Write c [VersionSocks5, MethodNoAcceptable]))"
    using assms by (rule authenticate_no_match)
  have b: "wlog (snd (snd (authenticate s c userAddr methods))) =
           wlog c @ [([0x05, 0xFF], fst (Write c [VersionSocks5, MethodNoAcceptable]))]"
    by (simp add: a Write_wlog) (simp add: VersionSocks5_def MethodNoAcceptable_def)
  have c: "ServeConn d s c =
              (Some (Errorf ''failed to authenticate: %w'' ErrNoSupportedAuth), s,
               Close (snd (Write (c\<lparr>input := i1\<rparr>) [VersionSocks5, MethodNoAcceptable]))) \<and>
            (\<forall>nr. ServeConn (d\<lparr>NewRequest := nr\<rparr>) s c = ServeConn d s c)"
    if "ParseMethodRequest d (input c) = (Inr mr, i1)" "Ver mr = VersionSocks5" "Methods mr = methods"
    for d mr i1
    using that by (simp add: ServeConn_def ServeConn_body_def a)
  from a b c show ?thesis by blast
qed

theorem authenticate_no_acceptable_methods_witness:
  "set [0x02] \<inter> dom (authMethods (NewServer sample_deps [])) = {} \<and>
   ServeConn sample_deps (NewServer sample_deps []) (sample_conn [0x05, 0x01, 0x02]) =
     (Some (Errorf ''failed to authenticate: %w'' ErrNoSupportedAuth), NewServer sample_deps [],
      \<lparr>input = [], wlog = [([0x05, 0xFF], None)], wres = [], closed = True,
       connLocalAddr = ''10.0.0.1:1080'', connRemoteAddr = ''10.0.0.2:40000''\<rparr>)"
proof -
  have h: "set [0x02] \<inter> dom (authMethods (NewServer sample_deps [])) = {}"
    by (simp add: NewServer_no_options MethodNoAuth_def)
  have p: "ParseMethodRequest sample_deps (input (sample_conn [0x05, 0x01, 0x02])) =
             (Inr \<lparr>Ver = 0x05, NMethods = 0x01, Methods = [0x02]\<rparr>, []) \<and>
           Ver \<lparr>Ver = 0x05, NMethods = 0x01, Methods = [0x02]\<rparr> = VersionSocks5 \<and>
           Methods \<lparr>Ver = 0x05, NMethods = 0x01, Methods = [0x02]\<rparr> = [0x02]"
    by (simp add: sample_handshake VersionSocks5_def)
  from authenticate_no_acceptable_methods [OF h, where c = "sample_conn [0x05, 0x01, 0x02]",
      THEN conjunct2, THEN conjunct2, rule_format, OF p]
  have "ServeConn sample_deps (NewServer sample_deps []) (sample_conn [0x05, 0x01, 0x02]) =
     (Some (Errorf ''failed to authenticate: %w'' ErrNoSupportedAuth), NewServer sample_deps [],
      Close (snd (Write (sample_conn [0x05, 0x01, 0x02]\<lparr>input := []\<rparr>)
        [VersionSocks5, MethodNoAcceptable])))"
    by simp
  with h show ?thesis
    by (simp add: sample_conn_def Write_def Close_def VersionSocks5_def MethodNoAcceptable_def)
qed

text \<open>
  C3. When some offered method code is in the authenticator map, the offered sequence splits
  at the first such code \<open>m\<close>: no code before it is registered, and \<^verbatim>\<open>authenticate\<close>
  returns what the \<^verbatim>\<open>Authenticate\<close> of the authenticator registered for \<open>m\<close> returns, result
  and connection, and nothing else happens to the connection.
\<close>

theorem authenticate_selects_first_offered:
  assumes "set methods \<inter> dom (authMethods s) \<noteq> {}"
  shows "\<exists>pre m post cator. methods = pre @ m # post \<and> set pre \<inter> dom (authMethods s) = {} \<and>
           authMethods s m = Some cator \<and>
           authenticate s c userAddr methods =
             (fst (Authenticate cator c userAddr), s, snd (Authenticate cator c userAddr))"
proof -
  from assms have "\<exists>x\<in>set methods. x \<in> dom (authMethods s)" by blast
  then obtain pre m post where
    split: "methods = pre @ m # post" and m: "m \<in> dom (authMethods s)" and
    pre: "\<forall>y\<in>set pre. y \<notin> dom (authMethods s)"
    using split_list_first_prop [of methods "\<lambda>x. x \<in> dom (authMethods s)"] by blast
  from m obtain cator where cator: "authMethods s m = Some cator" by blast
  from pre have disj: "set pre \<inter> dom (authMethods s) = {}" by blast
  from authenticate_first_match [OF disj cator] split cator disj show ?thesis by blast
qed

theorem authenticate_selects_first_offered_witness:
  "set [0x01, 0x02, 0x00] \<inter> dom (authMethods sample_server) \<noteq> {} \<and>
   (\<exists>pre m post cator. [0x01, 0x02, 0x00] = pre @ m # post \<and>
      set pre \<inter> dom (authMethods sample_server) = {} \<and>
      authMethods sample_server m = Some cator \<and>
      authenticate sample_server (sample_conn []) ''10.0.0.2:40000'' [0x01, 0x02, 0x00] =
        (fst (Authenticate cator (sample_conn []) ''10.0.0.2:40000''), sample_server,
         snd (Authenticate cator (sample_conn []) ''10.0.0.2:40000'')))"
proof -
  have h: "set [0x01, 0x02, 0x00] \<inter> dom (authMethods sample_server) \<noteq> {}"
    by (simp add: sample_server_authMethods MethodNoAuth_def)
  from authenticate_selects_first_offered [OF h] h show ?thesis by blast
qed

text \<open>
  C10. On the path with no acceptable method the outcome \<open>r\<close> of the \<^verbatim>\<open>Write\<close> of the
  refusal is not looked at: whether it is \<^verbatim>\<open>nil\<close> or an error, \<^verbatim>\<open>authenticate\<close> returns
  \<open>ErrNoSupportedAuth\<close> and no \<^verbatim>\<open>AuthContext\<close>.
\<close>

theorem authenticate_ignores_write_outcome:
  assumes "set methods \<inter> dom (authMethods s) = {}"
  shows "fst (authenticate s (c\<lparr>wres := r # rs\<rparr>) userAddr methods) = Inl ErrNoSupportedAuth \<and>
         wlog (snd (snd (authenticate s (c\<lparr>wres := r # rs\<rparr>) userAddr methods))) =
           wlog c @ [([VersionSocks5, MethodNoAcceptable], r)]"
  using authenticate_no_match [OF assms] by (simp add: Write_def)

theorem authenticate_ignores_write_outcome_witness:
  "set [0x02] \<inter> dom (authMethods (NewServer sample_deps [])) = {} \<and>
   fst (authenticate (NewServer sample_deps [])
          (sample_conn []\<lparr>wres := [Some (ErrOther ''broken pipe'')]\<rparr>) ''10.0.0.2:40000'' [0x02]) =
     Inl ErrNoSupportedAuth \<and>
   wlog (snd (snd (authenticate (NewServer sample_deps [])
          (sample_conn []\<lparr>wres := [Some (ErrOther ''broken pipe'')]\<rparr>) ''10.0.0.2:40000'' [0x02]))) =
     [([0x05, 0xFF], Some (ErrOther ''broken pipe''))] \<and>
   fst (authenticate (NewServer sample_deps [])
          (sample_conn []\<lparr>wres := [None]\<rparr>) ''10.0.0.2:40000'' [0x02]) =
     Inl ErrNoSupportedAuth"
proof -
  have h: "set [0x02] \<inter> dom (authMethods (NewServer sample_deps [])) = {}"
    by (simp add: NewServer_no_options MethodNoAuth_def)
  from authenticate_ignores_write_outcome [OF h, where c = "sample_conn []" and
      r = "Some (ErrOther ''broken pipe'')" and rs = "[]" and userAddr = "''10.0.0.2:40000''"]
    authenticate_ignores_write_outcome [OF h, where c = "sample_conn []" and
      r = None and rs = "[]" and userAddr = "''10.0.0.2:40000''"] h
  show ?thesis
    by (simp add: sample_conn_def VersionSocks5_def MethodNoAcceptable_def)
qed

subsection \<open>Serving one connection\<close>

text \<open>
  C5. When the handshake's version is not the supported one, \<^verbatim>\<open>ServeConn\<close> returns
  \<open>ErrNotSupportVersion\<close> at once: the connection has only been read from and closed, and
  its log of writes is as before.
\<close>

theorem ServeConn_version_mismatch:
  assumes "ParseMethodRequest d (input c) = (Inr mr, i1)" and "Ver mr \<noteq> VersionSocks5"
  shows "ServeConn d s c = (Some ErrNotSupportVersion, s, Close (c\<lparr>input := i1\<rparr>)) \<and>
         wlog (snd (snd (ServeConn d s c))) = wlog c"
  using assms by (simp add: ServeConn_def ServeConn_body_def Close_def)

theorem ServeConn_version_mismatch_witness:
  "ParseMethodRequest sample_deps (input (sample_conn [0x04, 0x01, 0x00])) =
     (Inr \<lparr>Ver = 0x04, NMethods = 0x01, Methods = [0x00]\<rparr>, []) \<and>
   Ver \<lparr>Ver = 0x04, NMethods = 0x01, Methods = [0x00]\<rparr> \<noteq> VersionSocks5 \<and>
   ServeConn sample_deps sample_server (sample_conn [0x04, 0x01, 0x00]) =
     (Some ErrNotSupportVersion, sample_server,
      \<lparr>input = [], wlog = [], wres = [], closed = True,
       connLocalAddr = ''10.0.0.1:1080'', connRemoteAddr = ''10.0.0.2:40000''\<rparr>)"
proof -
  have p: "ParseMethodRequest sample_deps (input (sample_conn [0x04, 0x01, 0x00])) =
     (Inr \<lparr>Ver = 0x04, NMethods = 0x01, Methods = [0x00]\<rparr>, [])"
    by (rule sample_handshake)
  have v: "Ver \<lparr>Ver = 0x04, NMethods = 0x01, Methods = [0x00]\<rparr> \<noteq> VersionSocks5"
    by (simp add: VersionSocks5_def)
  from ServeConn_version_mismatch [OF p v, where s = sample_server] p v show ?thesis
    by (simp add: sample_conn_def Close_def)
qed

text \<open>
  C4. When \<^verbatim>\<open>NewRequest\<close> fails after a successful authentication: if the error is
  \<open>ErrUnrecognizedAddrType\<close>, \<^verbatim>\<open>SendReply\<close> is called on the connection with the
  handshake's version and \<open>RepAddrTypeNotSupported\<close> and an error is returned; for any other
  error the wrapped error is returned, nothing is written after the authentication, and the
  result is the same whatever \<^verbatim>\<open>SendReply\<close> is.
\<close>

theorem ServeConn_request_parse_failure:
  assumes "ParseMethodRequest d (input c) = (Inr mr, i1)" and "Ver mr = VersionSocks5"
    and "authenticate s (c\<lparr>input := i1\<rparr>) (connRemoteAddr c) (Methods mr) = (Inr ctx, s1, c2)"
    and "NewRequest d (input c2) = (Inl err, i3)"
  shows "(err = ErrUnrecognizedAddrType \<longrightarrow>
            ServeConn d s c =
              (case SendReply d (c2\<lparr>input := i3\<rparr>) (Request_Version (Ver mr))
                      RepAddrTypeNotSupported of
                 (Some err', c4) \<Rightarrow> (Some (Errorf ''failed to send reply %w'' err'), s1, Close c4)
               | (None, c4) \<Rightarrow>
                   (Some (Errorf ''failed to read destination address, %w'' err), s1, Close c4))) \<and>
         (err \<noteq> ErrUnrecognizedAddrType \<longrightarrow>
            ServeConn d s c =
              (Some (Errorf ''failed to read destination address, %w'' err), s1,
               Close (c2\<lparr>input := i3\<rparr>)) \<and>
            wlog (snd (snd (ServeConn d s c))) = wlog c2 \<and>
            (\<forall>sr. ServeConn (d\<lparr>SendReply := sr\<rparr>) s c = ServeConn d s c))"
  using assms
  by (simp add: ServeConn_def ServeConn_body_def Close_def split: prod.splits option.splits)

theorem ServeConn_request_parse_failure_witness:
  "NewRequest sample_deps [0x05, 0x01, 0x00, 0x09, 0, 0, 0, 0, 0, 80] =
     (Inl ErrUnrecognizedAddrType, [0, 0, 0, 0, 0, 80]) \<and>
   ServeConn sample_deps sample_server
       (sample_conn [0x05, 0x01, 0x00, 0x05, 0x01, 0x00, 0x09, 0, 0, 0, 0, 0, 80]) =
     (Some (Errorf ''failed to read destination address, %w'' ErrUnrecognizedAddrType),
      sample_server,
      \<lparr>input = [0, 0, 0, 0, 0, 80],
       wlog = [([0x05, 0x08, 0, 0x01, 0, 0, 0, 0, 0, 0], None)], wres = [], closed = True,
       connLocalAddr = ''10.0.0.1:1080'', connRemoteAddr = ''10.0.0.2:40000''\<rparr>) \<and>
   NewRequest sample_deps [0x05, 0x01] = (Inl (ErrOther ''unexpected EOF''), []) \<and>
   ServeConn sample_deps sample_server (sample_conn [0x05, 0x01, 0x00, 0x05, 0x01]) =
     (Some (Errorf ''failed to read destination address, %w'' (ErrOther ''unexpected EOF'')),
      sample_server,
      \<lparr>input = [], wlog = [], wres = [], closed = True,
       connLocalAddr = ''10.0.0.1:1080'', connRemoteAddr = ''10.0.0.2:40000''\<rparr>)"
proof -
  let ?mr = "\<lparr>Ver = 0x05, NMethods = 0x01, Methods = [0x00]\<rparr>"
  let ?ctx = "\<lparr>Method = MethodNoAuth, Payload = []\<rparr>"
  let ?rq1 = "[0x05, 0x01, 0x00, 0x09, 0, 0, 0, 0, 0, 80] :: byte list"
  let ?rq2 = "[0x05, 0x01] :: byte list"
  have v: "Ver ?mr = VersionSocks5" by (simp add: VersionSocks5_def)
  have p1: "ParseMethodRequest sample_deps (input (sample_conn (0x05 # 0x01 # 0x00 # ?rq1))) = (Inr ?mr, ?rq1)"
    by (rule sample_handshake)
  have p2: "ParseMethodRequest sample_deps (input (sample_conn (0x05 # 0x01 # 0x00 # ?rq2))) = (Inr ?mr, ?rq2)"
    by (rule sample_handshake)
  have a1: "authenticate sample_server (sample_conn (0x05 # 0x01 # 0x00 # ?rq1)\<lparr>input := ?rq1\<rparr>)
              (connRemoteAddr (sample_conn (0x05 # 0x01 # 0x00 # ?rq1))) (Methods ?mr) =
            (Inr ?ctx, sample_server, sample_conn ?rq1)"
    using sample_no_auth [of ?rq1] by (simp add: sample_conn_def)
  have a2: "authenticate sample_server (sample_conn (0x05 # 0x01 # 0x00 # ?rq2)\<lparr>input := ?rq2\<rparr>)
              (connRemoteAddr (sample_conn (0x05 # 0x01 # 0x00 # ?rq2))) (Methods ?mr) =
            (Inr ?ctx, sample_server, sample_conn ?rq2)"
    using sample_no_auth [of ?rq2] by (simp add: sample_conn_def)
  have n1: "NewRequest sample_deps (input (sample_conn ?rq1)) =
              (Inl ErrUnrecognizedAddrType, [0, 0, 0, 0, 0, 80])"
    by (simp add: sample_deps_def sample_conn_def sample_NewRequest_def)
  have n2: "NewRequest sample_deps (input (sample_conn ?rq2)) = (Inl (ErrOther ''unexpected EOF''), [])"
    by (simp add: sample_deps_def sample_conn_def sample_NewRequest_def)
  have r1: "ServeConn sample_deps sample_server (sample_conn (0x05 # 0x01 # 0x00 # ?rq1)) =
     (Some (Errorf ''failed to read destination address, %w'' ErrUnrecognizedAddrType),
      sample_server,
      \<lparr>input = [0, 0, 0, 0, 0, 80],
       wlog = [([0x05, 0x08, 0, 0x01, 0, 0, 0, 0, 0, 0], None)], wres = [], closed = True,
       connLocalAddr = ''10.0.0.1:1080'', connRemoteAddr = ''10.0.0.2:40000''\<rparr>)"
    using ServeConn_request_parse_failure [OF p1 v a1 n1, THEN conjunct1]
    by (simp add: sample_deps_def sample_SendReply_def Write_def sample_conn_def Close_def
        Request_Version_def VersionSocks5_def RepAddrTypeNotSupported_def)
  have r2: "ServeConn sample_deps sample_server (sample_conn (0x05 # 0x01 # 0x00 # ?rq2)) =
     (Some (Errorf ''failed to read destination address, %w'' (ErrOther ''unexpected EOF'')),
      sample_server,
      \<lparr>input = [], wlog = [], wres = [], closed = True,
       connLocalAddr = ''10.0.0.1:1080'', connRemoteAddr = ''10.0.0.2:40000''\<rparr>)"
    using ServeConn_request_parse_failure [OF p2 v a2 n2, THEN conjunct2]
    by (simp add: sample_conn_def Close_def)
  from n1 n2 r1 r2 show ?thesis by (simp add: sample_conn_def)
qed

text \<open>
  C7. Whatever \<^verbatim>\<open>ServeConn\<close> returns, and at whatever stage, the connection it leaves
  behind is closed.
\<close>

theorem ServeConn_closes_connection: "closed (snd (snd (ServeConn d s c)))"
  by (simp add: ServeConn_def Close_def split: prod.splits)

subsection \<open>Scheduling and the accept loop\<close>

text \<open>
  C6. \<^verbatim>\<open>submit\<close> adds to the events exactly one that schedules the task, and none that
  schedules another task: with no pool a \<^verbatim>\<open>go\<close>, and the pool's state is left as it was;
  with a pool, \<^verbatim>\<open>Submit\<close> is called once on the pool's state and the pool is left in the
  state that call returned, and when it answers \<^verbatim>\<open>nil\<close> the accepted submission is the
  only event, and when it answers an error the refused submission is followed by a \<^verbatim>\<open>go\<close>.
\<close>

theorem submit_schedules_exactly_once:
  "\<exists>evs. trace (snd (submit s f w)) = trace w @ evs \<and>
     length (filter (schedules f) evs) = 1 \<and>
     (\<forall>g. g \<noteq> f \<longrightarrow> filter (schedules g) evs = []) \<and>
     (gPool s = None \<longrightarrow> evs = [Go f] \<and> pool_state (snd (submit s f w)) = pool_state w) \<and>
     (\<forall>p. gPool s = Some p \<longrightarrow>
        pool_state (snd (submit s f w)) = snd (Submit p f (pool_state w)) \<and>
        (fst (Submit p f (pool_state w)) = None \<longrightarrow> evs = [PoolSubmit f None]) \<and>
        (\<forall>e. fst (Submit p f (pool_state w)) = Some e \<longrightarrow> evs = [PoolSubmit f (Some e), Go f]))"
proof (cases "gPool s")
  case None
  then show ?thesis by (simp add: submit_trace submit_pool_state)
next
  case (Some p)
  show ?thesis
  proof (cases "fst (Submit p f (pool_state w))")
    case None
    with Some show ?thesis by (simp add: submit_trace submit_pool_state)
  next
    case (Some e)
    with \<open>gPool s = Some p\<close> show ?thesis by (simp add: submit_trace submit_pool_state)
  qed
qed

theorem submit_schedules_exactly_once_witness:
  "gPool (default_server sample_deps\<lparr>gPool := Some sample_pool\<rparr>) = Some sample_pool \<and>
   Submit sample_pool (OtherTask 1) [OtherTask 0] = (Some (ErrOther ''pool full''), [OtherTask 0]) \<and>
   snd (submit (default_server sample_deps\<lparr>gPool := Some sample_pool\<rparr>) (OtherTask 1)
                 \<lparr>pool_state = [OtherTask 0], trace = []\<rparr>) =
     \<lparr>pool_state = [OtherTask 0],
      trace = [PoolSubmit (OtherTask 1) (Some (ErrOther ''pool full'')), Go (OtherTask 1)]\<rparr> \<and>
   Submit sample_pool (OtherTask 1) [] = (None, [OtherTask 1]) \<and>
   snd (submit (default_server sample_deps\<lparr>gPool := Some sample_pool\<rparr>) (OtherTask 1)
                 \<lparr>pool_state = [], trace = []\<rparr>) =
     \<lparr>pool_state = [OtherTask 1], trace = [PoolSubmit (OtherTask 1) None]\<rparr> \<and>
   gPool (default_server sample_deps) = None \<and>
   snd (submit (default_server sample_deps) (OtherTask 1) \<lparr>pool_state = [], trace = []\<rparr>) =
     \<lparr>pool_state = [], trace = [Go (OtherTask 1)]\<rparr>"
proof -
  let ?s = "default_server sample_deps\<lparr>gPool := Some sample_pool\<rparr>"
  let ?f = "OtherTask 1"
  have g: "gPool ?s = Some sample_pool" by simp
  have g0: "gPool (default_server sample_deps) = None" by (simp add: default_server_def)
  have full: "Submit sample_pool ?f [OtherTask 0] = (Some (ErrOther ''pool full''), [OtherTask 0])"
    by (simp add: sample_pool_def)
  have free: "Submit sample_pool ?f [] = (None, [OtherTask 1])"
    by (simp add: sample_pool_def)
  have rec: "x = \<lparr>pool_state = ps, trace = tr\<rparr>" if "pool_state x = ps" "trace x = tr" for x :: sched and ps tr
    using that by (cases x) simp
  from submit_schedules_exactly_once [of ?s ?f "\<lparr>pool_state = [OtherTask 0], trace = []\<rparr>"]
    g full
  have t1: "snd (submit ?s ?f \<lparr>pool_state = [OtherTask 0], trace = []\<rparr>) =
     \<lparr>pool_state = [OtherTask 0],
      trace = [PoolSubmit ?f (Some (ErrOther ''pool full'')), Go ?f]\<rparr>"
    by (intro rec) auto
  from submit_schedules_exactly_once [of ?s ?f "\<lparr>pool_state = [], trace = []\<rparr>"]
    g free
  have t2: "snd (submit ?s ?f \<lparr>pool_state = [], trace = []\<rparr>) =
     \<lparr>pool_state = [OtherTask 1], trace = [PoolSubmit ?f None]\<rparr>"
    by (intro rec) auto
  from submit_schedules_exactly_once [of "default_server sample_deps" ?f
      "\<lparr>pool_state = [], trace = []\<rparr>"] g0
  have t3: "snd (submit (default_server sample_deps) ?f \<lparr>pool_state = [], trace = []\<rparr>) =
     \<lparr>pool_state = [], trace = [Go ?f]\<rparr>"
    by (intro rec) auto
  from g g0 full free t1 t2 t3 show ?thesis by simp
qed

text \<open>
  C8. \<^verbatim>\<open>Serve\<close> returns exactly when some \<^verbatim>\<open>Accept\<close> fails. The error it returns is the
  error of the first failing \<^verbatim>\<open>Accept\<close>, and every connection accepted before it has been
  scheduled. The closure run for a connection turns an error of \<^verbatim>\<open>ServeConn\<close> into one
  call of the logger and returns nothing, so no such error reaches the loop.
\<close>

theorem Serve_returns_iff_Accept_fails:
  "((\<exists>r. Serve s l w = Some r) \<longleftrightarrow> (\<exists>n. isl (l n))) \<and>
   (\<forall>e s' w'. Serve s l w = Some (e, s', w') \<longrightarrow>
      (\<exists>n. l n = Inl e \<and>
         (\<forall>k<n. \<exists>c. l k = Inr c \<and> (\<exists>ev\<in>set (trace w'). schedules (ServeConnTask c) ev)))) \<and>
   (\<forall>d c lg err. fst (ServeConn d s c) = Some err \<longrightarrow>
      snd (run_ServeConnTask d c (s, lg)) = lg @ [(''server conn %v'', err)]) \<and>
   (\<forall>d c lg. fst (ServeConn d s c) = None \<longrightarrow> snd (run_ServeConnTask d c (s, lg)) = lg)"
proof -
  have ret: "\<exists>w'. Serve s l w = Some (e, s, w') \<and>
      (\<forall>k<n. \<exists>c. l k = Inr c \<and> (\<exists>ev\<in>set (trace w'). schedules (ServeConnTask c) ev))"
    if fail: "l n = Inl e" and acc: "\<forall>k<n. \<exists>c. l k = Inr c" for n e
  proof -
    from fail acc have "l (0 + n) = Inl e" "\<forall>j<n. \<exists>c. l (0 + j) = Inr c" by simp_all
    from Serve_loop_returns [OF this, of s w] obtain w' where
      r: "Serve_loop s l 0 w = Some (e, s, w')" and
      sch: "\<forall>j<n. \<forall>c. l (0 + j) = Inr c \<longrightarrow> (\<exists>ev\<in>set (trace w'). schedules (ServeConnTask c) ev)"
      by blast
    have "\<forall>k<n. \<exists>c. l k = Inr c \<and> (\<exists>ev\<in>set (trace w'). schedules (ServeConnTask c) ev)"
    proof (intro allI impI)
      fix k assume k: "k < n"
      with acc obtain c where c: "l k = Inr c" by blast
      with sch k have "\<exists>ev\<in>set (trace w'). schedules (ServeConnTask c) ev" by simp
      with c show "\<exists>c. l k = Inr c \<and> (\<exists>ev\<in>set (trace w'). schedules (ServeConnTask c) ev)"
        by blast
    qed
    with r show ?thesis unfolding Serve_def by blast
  qed
  have iff: "(\<exists>r. Serve s l w = Some r) \<longleftrightarrow> (\<exists>n. isl (l n))"
  proof
    assume "\<exists>r. Serve s l w = Some r"
    then obtain r where "Serve_loop s l 0 w = Some r" unfolding Serve_def by blast
    from Serve_loop_Some_accept_failed [OF this] show "\<exists>n. isl (l n)" by simp
  next
    assume "\<exists>n. isl (l n)"
    then obtain m where "isl (l m)" by blast
    from first_failure [of l m, OF this] obtain n e where
      "l n = Inl e" "\<forall>k<n. \<exists>c. l k = Inr c"
      by blast
    from ret [OF this] show "\<exists>r. Serve s l w = Some r" by blast
  qed
  have err: "\<exists>n. l n = Inl e \<and>
         (\<forall>k<n. \<exists>c. l k = Inr c \<and> (\<exists>ev\<in>set (trace w'). schedules (ServeConnTask c) ev))"
    if some: "Serve s l w = Some (e, s', w')" for e s' w'
  proof -
    from some have "\<exists>r. Serve s l w = Some r" by blast
    with iff obtain m where "isl (l m)" by blast
    from first_failure [of l m, OF this] obtain n e0 where
      n: "l n = Inl e0" and acc: "\<forall>k<n. \<exists>c. l k = Inr c"
      by blast
    from ret [OF n acc] obtain w0 where
      r: "Serve s l w = Some (e0, s, w0)" and
      sch: "\<forall>k<n. \<exists>c. l k = Inr c \<and> (\<exists>ev\<in>set (trace w0). schedules (ServeConnTask c) ev)"
      by blast
    from r some have "e0 = e" "w0 = w'" by simp_all
    with n sch show ?thesis by blast
  qed
  have logged: "snd (run_ServeConnTask d c (s, lg)) = lg @ [(''server conn %v'', e)]"
    if "fst (ServeConn d s c) = Some e" for d c lg e
    using that by (cases "ServeConn d s c") (simp add: run_ServeConnTask_def)
  have quiet: "snd (run_ServeConnTask d c (s, lg)) = lg"
    if "fst (ServeConn d s c) = None" for d c lg
    using that by (cases "ServeConn d s c") (simp add: run_ServeConnTask_def)
  show ?thesis
  proof (intro conjI allI impI)
    show "(\<exists>r. Serve s l w = Some r) \<longleftrightarrow> (\<exists>n. isl (l n))" by (rule iff)
  next
    fix e s' w' assume "Serve s l w = Some (e, s', w')"
    then show "\<exists>n. l n = Inl e \<and>
         (\<forall>k<n. \<exists>c. l k = Inr c \<and> (\<exists>ev\<in>set (trace w'). schedules (ServeConnTask c) ev))"
      by (rule err)
  next
    fix d c lg e assume "fst (ServeConn d s c) = Some e"
    then show "snd (run_ServeConnTask d c (s, lg)) = lg @ [(''server conn %v'', e)]"
      by (rule logged)
  next
    fix d c lg assume "fst (ServeConn d s c) = None"
    then show "snd (run_ServeConnTask d c (s, lg)) = lg" by (rule quiet)
  qed
qed

theorem Serve_returns_iff_Accept_fails_witness:
  "isl (sample_listener 2) \<and>
   (\<exists>r. Serve sample_server sample_listener \<lparr>pool_state = [], trace = []\<rparr> = Some r) \<and>
   Serve sample_server sample_listener \<lparr>pool_state = [], trace = []\<rparr> =
     Some (ErrOther ''accept: use of closed network connection'', sample_server,
       \<lparr>pool_state = [],
        trace = [Go (ServeConnTask (sample_conn [0x05, 0x01, 0x02])),
                 Go (ServeConnTask (sample_conn [0x04, 0x01, 0x00]))]\<rparr>) \<and>
   snd (run_ServeConnTask sample_deps (sample_conn [0x04, 0x01, 0x00]) (sample_server, [])) =
     [(''server conn %v'', ErrNotSupportVersion)]"
proof -
  have f: "isl (sample_listener 2)" by (simp add: sample_listener_def)
  then have ex: "\<exists>n. isl (sample_listener n)" by blast
  note inst = Serve_returns_iff_Accept_fails [of sample_server sample_listener
      "\<lparr>pool_state = [], trace = []\<rparr>"]
  from inst ex have ret: "\<exists>r. Serve sample_server sample_listener \<lparr>pool_state = [], trace = []\<rparr> = Some r"
    by blast
  have g: "gPool sample_server = None"
    by (simp add: sample_server_def NewServer_def apply_opts_def default_server_def
        ensure_auth_def register_auth_def)
  have l0: "sample_listener 0 = Inr (sample_conn [0x05, 0x01, 0x02])"
    and l1: "sample_listener (Suc 0) = Inr (sample_conn [0x04, 0x01, 0x00])"
    and l2: "sample_listener (Suc (Suc 0)) = Inl (ErrOther ''accept: use of closed network connection'')"
    by (simp_all add: sample_listener_def)
  have val: "Serve sample_server sample_listener \<lparr>pool_state = [], trace = []\<rparr> =
     Some (ErrOther ''accept: use of closed network connection'', sample_server,
       \<lparr>pool_state = [],
        trace = [Go (ServeConnTask (sample_conn [0x05, 0x01, 0x02])),
                 Go (ServeConnTask (sample_conn [0x04, 0x01, 0x00]))]\<rparr>)"
    unfolding Serve_def
    apply (subst Serve_loop.simps, simp add: l0 submit_def g)
    apply (subst Serve_loop.simps, simp add: l1 submit_def g)
    apply (subst Serve_loop.simps, simp add: l2)
    done
  have e: "fst (ServeConn sample_deps sample_server (sample_conn [0x04, 0x01, 0x00])) =
      Some ErrNotSupportVersion"
    by (simp add: ServeConn_def ServeConn_body_def sample_handshake VersionSocks5_def)
  from inst e have lg: "snd (run_ServeConnTask sample_deps (sample_conn [0x04, 0x01, 0x00]) (sample_server, [])) =
     [] @ [(''server conn %v'', ErrNotSupportVersion)]"
    by blast
  from f ret val lg show ?thesis by simp
qed

subsection \<open>The server is only read\<close>



subsection \<open>Worked runs\<close>

text \<open>
  A client that offers no-auth and asks for a connection to \<^verbatim>\<open>127.0.0.1:80\<close> is served and
  the connection is closed; the order of the offered methods decides between two registered
  authenticators.
\<close>

lemma sample_connect_served:
  "ServeConn sample_deps sample_server
      (sample_conn [0x05, 0x01, 0x00, 0x05, 0x01, 0x00, 0x01, 127, 0, 0, 1, 0, 80]) =
     (None, sample_server,
      \<lparr>input = [], wlog = [([0x05, 0x00, 0, 0x01, 0, 0, 0, 0, 0, 0], None)], wres = [],
       closed = True, connLocalAddr = ''10.0.0.1:1080'', connRemoteAddr = ''10.0.0.2:40000''\<rparr>)"
  by (simp add: ServeConn_def ServeConn_body_def VersionSocks5_def sample_server_authMethods
      MethodNoAuth_def MethodUserPassAuth_def NoAuthAuthenticator_def
      sample_conn_def sample_deps_def sample_ParseMethodRequest_def sample_NewRequest_def
      sample_handleRequest_def sample_SendReply_def Write_def Close_def)

lemma sample_server_prefers_offered_order:
  "authenticate sample_server (sample_conn []) ''10.0.0.2:40000'' [0x01, 0x02, 0x00] =
     (Inr \<lparr>Method = MethodUserPassAuth, Payload = []\<rparr>, sample_server, sample_conn []) \<and>
   authenticate sample_server (sample_conn []) ''10.0.0.2:40000'' [0x01, 0x00, 0x02] =
     (Inr \<lparr>Method = MethodNoAuth, Payload = []\<rparr>, sample_server, sample_conn [])"
  by (simp add: sample_server_authMethods MethodNoAuth_def MethodUserPassAuth_def
      UserPassAuthenticator_def NoAuthAuthenticator_def sample_deps_def)

text \<open>
  With the request handler of the specification: a CONNECT is carried out, and a BIND, which
  the sample rules deny, is answered with connection-not-allowed.
\<close>

lemma sample_connect_handled:
  "ServeConn (with_spec_handleRequest sample_executor sample_deps) sample_server
      (sample_conn [0x05, 0x01, 0x00, 0x05, 0x01, 0x00, 0x01, 127, 0, 0, 1, 0, 80]) =
     (None, sample_server,
      \<lparr>input = [], wlog = [([0x05, 0x00, 0, 0x01, 0, 0, 0, 0, 0, 0], None)], wres = [],
       closed = True, connLocalAddr = ''10.0.0.1:1080'', connRemoteAddr = ''10.0.0.2:40000''\<rparr>)"
  by (simp add: ServeConn_def ServeConn_body_def VersionSocks5_def sample_server_authMethods
      MethodNoAuth_def MethodUserPassAuth_def NoAuthAuthenticator_def
      with_spec_handleRequest_def spec_handleRequest_def sample_executor_def sample_server_fields
      CommandConnect_def CommandBind_def CommandAssociate_def
      sample_conn_def sample_deps_def sample_ParseMethodRequest_def sample_NewRequest_def
      sample_SendReply_def Write_def Close_def)

lemma sample_bind_denied:
  "ServeConn (with_spec_handleRequest sample_executor sample_deps) sample_server
      (sample_conn [0x05, 0x01, 0x00, 0x05, 0x02, 0x00, 0x01, 127, 0, 0, 1, 0, 80]) =
     (Some (Errorf ''failed to handle request, %v'' (ErrOther ''connection not allowed by the rules'')),
      sample_server,
      \<lparr>input = [], wlog = [([0x05, 0x02, 0, 0x01, 0, 0, 0, 0, 0, 0], None)], wres = [],
       closed = True, connLocalAddr = ''10.0.0.1:1080'', connRemoteAddr = ''10.0.0.2:40000''\<rparr>)"
  by (simp add: ServeConn_def ServeConn_body_def VersionSocks5_def sample_server_authMethods
      MethodNoAuth_def MethodUserPassAuth_def NoAuthAuthenticator_def
      with_spec_handleRequest_def spec_handleRequest_def sample_executor_def sample_server_fields
      CommandConnect_def CommandBind_def CommandAssociate_def RepConnectionNotAllowed_def
      sample_conn_def sample_deps_def sample_ParseMethodRequest_def sample_NewRequest_def
      sample_SendReply_def Write_def Close_def)

end
